theory Spec2Isabelle
  imports Complex_Main "HOL-Library.Sublist"
begin

section \<open>JSON values as the Python code sees them\<close>

text \<open>
  The configuration file and every API response reach the program through
  \<^verbatim>\<open>json.load\<close> / \<^verbatim>\<open>resp.json()\<close>, so every value the code handles is a JSON value:
  \<^verbatim>\<open>None\<close>, a bool, an unbounded int, a float, a str, a list or a dict. Floats are kept
  as rationals (every finite double is one) plus the three special values that
  \<^verbatim>\<open>json.loads\<close> accepts. A dict is an association list; a lookup takes the first binding
  of a key.
\<close>

datatype pyfloat = Finite rat | PosInf | NegInf | NaN

datatype json =
    JNull
  | JBool bool
  | JInt int
  | JFloat pyfloat
  | JStr string
  | JList "json list"
  | JDict "(string \<times> json) list"

datatype exn =
    AttributeError
  | TypeError
  | ValueError
  | OverflowError
  | OSError
  | RuntimeError string
  | ExternalError

text \<open>Truthiness: \<^verbatim>\<open>if x\<close>, \<^verbatim>\<open>not x\<close>.\<close>

fun truthy :: "json \<Rightarrow> bool" where
  "truthy JNull = False"
| "truthy (JBool b) = b"
| "truthy (JInt n) = (n \<noteq> 0)"
| "truthy (JFloat f) = (f \<noteq> Finite 0)"
| "truthy (JStr s) = (s \<noteq> [])"
| "truthy (JList xs) = (xs \<noteq> [])"
| "truthy (JDict kvs) = (kvs \<noteq> [])"

fun is_dict :: "json \<Rightarrow> bool" where
  "is_dict (JDict kvs) = True"
| "is_dict _ = False"

text \<open>\<^verbatim>\<open>d.get(k, default)\<close> on a dict.\<close>

definition dict_get :: "(string \<times> json) list \<Rightarrow> string \<Rightarrow> json \<Rightarrow> json" where
  "dict_get kvs k d = (case map_of kvs k of None \<Rightarrow> d | Some v \<Rightarrow> v)"

text \<open>\<^verbatim>\<open>x.get(k, default)\<close> on any value: only a dict has the method.\<close>

fun py_get :: "json \<Rightarrow> string \<Rightarrow> json \<Rightarrow> exn + json" where
  "py_get (JDict kvs) k d = Inr (dict_get kvs k d)"
| "py_get _ k d = Inl AttributeError"

text \<open>\<^verbatim>\<open>k in x\<close> for a str \<open>k\<close>: key of a dict, element of a list, substring of a str.\<close>

fun py_contains :: "string \<Rightarrow> json \<Rightarrow> exn + bool" where
  "py_contains k (JDict kvs) = Inr (k \<in> fst ` set kvs)"
| "py_contains k (JList xs) = Inr (JStr k \<in> set xs)"
| "py_contains k (JStr s) = Inr (sublist k s)"
| "py_contains k _ = Inl TypeError"

text \<open>\<^verbatim>\<open>x[k]\<close> for a str \<open>k\<close>, reached only after \<^verbatim>\<open>k in x\<close> was true.\<close>

fun py_subscript :: "json \<Rightarrow> string \<Rightarrow> exn + json" where
  "py_subscript (JDict kvs) k = Inr (dict_get kvs k JNull)"
| "py_subscript _ k = Inl TypeError"

text \<open>\<^verbatim>\<open>for item in x\<close>: the items of a list, the keys of a dict, the characters of a str.\<close>

fun py_iter :: "json \<Rightarrow> exn + json list" where
  "py_iter (JList xs) = Inr xs"
| "py_iter (JDict kvs) = Inr (map JStr (remdups (map fst kvs)))"
| "py_iter (JStr s) = Inr (map (\<lambda>c. JStr [c]) s)"
| "py_iter _ = Inl TypeError"

text \<open>\<^verbatim>\<open>x == 0\<close> and \<^verbatim>\<open>x > 0\<close>; a bool is the int 0 or 1.\<close>

fun py_eq0 :: "json \<Rightarrow> bool" where
  "py_eq0 (JInt n) = (n = 0)"
| "py_eq0 (JBool b) = (\<not> b)"
| "py_eq0 (JFloat f) = (f = Finite 0)"
| "py_eq0 _ = False"

fun py_gt0 :: "json \<Rightarrow> exn + bool" where
  "py_gt0 (JInt n) = Inr (0 < n)"
| "py_gt0 (JBool b) = Inr b"
| "py_gt0 (JFloat (Finite r)) = Inr (0 < r)"
| "py_gt0 (JFloat PosInf) = Inr True"
| "py_gt0 (JFloat NegInf) = Inr False"
| "py_gt0 (JFloat NaN) = Inr False"
| "py_gt0 _ = Inl TypeError"

text \<open>\<^verbatim>\<open>range(x)\<close>: the number of iterations, for an int (or bool) only.\<close>

fun py_range :: "json \<Rightarrow> exn + nat" where
  "py_range (JInt n) = Inr (nat n)"
| "py_range (JBool b) = Inr (if b then 1 else 0)"
| "py_range _ = Inl TypeError"

text \<open>
  \<^verbatim>\<open>x / 1000.0\<close>: a number is needed, and an int too large for a double
  (one that rounds to \<open>2 ^ 1024\<close>) raises OverflowError.
\<close>

fun truediv_error :: "json \<Rightarrow> exn option" where
  "truediv_error (JInt n) = (if 2 ^ 1024 - 2 ^ 970 \<le> \<bar>n\<bar> then Some OverflowError else None)"
| "truediv_error (JBool b) = None"
| "truediv_error (JFloat f) = None"
| "truediv_error _ = Some TypeError"

section \<open>The platform\<close>

text \<open>
  What the platform decides: \<^verbatim>\<open>os.name == 'nt'\<close>; the text \<^verbatim>\<open>str()\<close> gives for a float, a list
  or a dict (the text of the other values is fixed below); and, for a duration that
  \<^verbatim>\<open>time.sleep\<close> has accepted as a number of nanoseconds, whether the sleep of the operating
  system raises (\<open>None\<close> when it sleeps). The limit of what is slept differs between
  platforms and versions, so nothing is fixed about it here.
\<close>

record platform =
  os_nt :: bool
  render :: "json \<Rightarrow> string"
  sleep_refused :: "rat \<Rightarrow> exn option"

text \<open>
  \<^verbatim>\<open>time.sleep(x)\<close> for a number of seconds \<open>r\<close>: OverflowError when the nanoseconds do not
  fit 64 bits, ValueError when it is negative, and otherwise what the platform decides.
  The program's own constant pauses (0.35 and 2 seconds) are taken to be slept.
\<close>

definition duration_error :: "platform \<Rightarrow> rat \<Rightarrow> exn option" where
  "duration_error pf r =
     (if 2 ^ 63 \<le> r * 10 ^ 9 \<or> r * 10 ^ 9 < - (2 ^ 63) then Some OverflowError
      else if r < 0 then Some ValueError
      else sleep_refused pf r)"

text \<open>\<^verbatim>\<open>time.sleep(x)\<close> for any value: a number is needed; a bool is the int 0 or 1.\<close>

fun sleep_error :: "platform \<Rightarrow> json \<Rightarrow> exn option" where
  "sleep_error pf (JInt n) = duration_error pf (of_int n)"
| "sleep_error pf (JBool b) = duration_error pf (if b then 1 else 0)"
| "sleep_error pf (JFloat (Finite r)) = duration_error pf r"
| "sleep_error pf (JFloat PosInf) = Some OverflowError"
| "sleep_error pf (JFloat NegInf) = Some OverflowError"
| "sleep_error pf (JFloat NaN) = Some ValueError"
| "sleep_error pf v = Some TypeError"

section \<open>The outside world\<close>

text \<open>
  Every call that leaves the process (an HTTP request, a keystroke, a subprocess) takes
  its outcome from a script of outcomes, in order: the call either raises or returns a
  value (the parsed JSON body of a response, the return code of a subprocess). A call
  made when the script is used up raises. A function of the program takes the script,
  and returns its result (\<open>Inl\<close> an exception that leaves it), the rest of the script and
  the events it caused, in order.
\<close>

datatype outcome = Raises | Returns json

type_synonym ('a, 'e) run = "outcome list \<Rightarrow> (exn + 'a) \<times> outcome list \<times> 'e list"

definition external :: "'e \<Rightarrow> (json, 'e) run" where
  "external ev s =
     (case s of
        [] \<Rightarrow> (Inl ExternalError, [], [ev])
      | Raises # rest \<Rightarrow> (Inl ExternalError, rest, [ev])
      | Returns j # rest \<Rightarrow> (Inr j, rest, [ev]))"

definition time_sleep :: "platform \<Rightarrow> (json \<Rightarrow> 'e) \<Rightarrow> json \<Rightarrow> (unit, 'e) run" where
  "time_sleep pf ev d s =
     (case sleep_error pf d of
        Some e \<Rightarrow> (Inl e, s, [])
      | None \<Rightarrow> (Inr (), s, [ev d]))"

section \<open>action\_executor.py\<close>

text \<open>
  The effects of conditions and actions: a keystroke, a shell command, a ping (on
  Windows or not, with host, count and timeout), a pause, and the three warnings of the
  executor and the trigger manager.
\<close>

datatype effect =
    Press json
  | RunCommand json
  | Ping bool json json json
  | Pause json
  | WarnUnknownCondition json
  | WarnUnknownAction json
  | WarnTriggerNotFound string

definition REPEAT_DELAY_IN_SECONDS :: json where
  "REPEAT_DELAY_IN_SECONDS = JFloat (Finite (35 / 100))"

subsection \<open>ConditionChecker\<close>

text \<open>\<open>nt\<close> is \<^verbatim>\<open>os.name == 'nt'\<close>.\<close>

definition check_ping :: "bool \<Rightarrow> json \<Rightarrow> (bool, effect) run" where
  "check_ping nt condition s =
     (case py_get condition ''host'' JNull of
        Inl e \<Rightarrow> (Inl e, s, [])
      | Inr host \<Rightarrow>
     (case py_get condition ''count'' (JInt 1) of
        Inl e \<Rightarrow> (Inl e, s, [])
      | Inr count \<Rightarrow>
     (case py_get condition ''timeout'' (JInt 100) of
        Inl e \<Rightarrow> (Inl e, s, [])
      | Inr timeout_ms \<Rightarrow>
     (case (if nt then None else truediv_error timeout_ms) of
        Some e \<Rightarrow> (Inl e, s, [])
      | None \<Rightarrow>
     (case external (Ping nt host count timeout_ms) s of
        (Inl e, s1, ev) \<Rightarrow> (Inl e, s1, ev)
      | (Inr returncode, s1, ev) \<Rightarrow> (Inr (py_eq0 returncode), s1, ev))))))"

definition check :: "bool \<Rightarrow> json \<Rightarrow> (bool, effect) run" where
  "check nt condition s =
     (if \<not> truthy condition then (Inr True, s, [])
      else
        (case py_get condition ''type'' JNull of
           Inl e \<Rightarrow> (Inl e, s, [])
         | Inr condition_type \<Rightarrow>
             (case (if condition_type = JStr ''ping'' then check_ping nt condition s
                    else (Inr True, s, [WarnUnknownCondition condition_type])) of
                (Inl e, s1, ev) \<Rightarrow> (Inr False, s1, ev)
              | (Inr b, s1, ev) \<Rightarrow> (Inr b, s1, ev))))"

subsection \<open>ActionExecutor\<close>

text \<open>
  The loop \<^verbatim>\<open>for i in range(repeat)\<close> of the keyboard and command actions, by the number
  of iterations left: the external call, then the fixed delay unless it was the last.
\<close>

fun repeat_loop :: "effect \<Rightarrow> nat \<Rightarrow> (unit, effect) run" where
  "repeat_loop act 0 s = (Inr (), s, [])"
| "repeat_loop act (Suc k) s =
     (case external act s of
        (Inl e, s1, ev) \<Rightarrow> (Inl e, s1, ev)
      | (Inr r, s1, ev) \<Rightarrow>
          (case repeat_loop act k s1 of
             (res, s2, ev2) \<Rightarrow>
               (res, s2, ev @ (if 0 < k then [Pause REPEAT_DELAY_IN_SECONDS] else []) @ ev2)))"

definition execute_keyboard :: "json \<Rightarrow> (unit, effect) run" where
  "execute_keyboard action s =
     (case py_get action ''key'' JNull of
        Inl e \<Rightarrow> (Inl e, s, [])
      | Inr key \<Rightarrow>
     (case py_get action ''repeat'' (JInt 1) of
        Inl e \<Rightarrow> (Inl e, s, [])
      | Inr repeat \<Rightarrow>
     (case py_range repeat of
        Inl e \<Rightarrow> (Inl e, s, [])
      | Inr n \<Rightarrow> repeat_loop (Press key) n s)))"

definition execute_command :: "json \<Rightarrow> (unit, effect) run" where
  "execute_command action s =
     (case py_get action ''command'' JNull of
        Inl e \<Rightarrow> (Inl e, s, [])
      | Inr command \<Rightarrow>
     (case py_get action ''repeat'' (JInt 1) of
        Inl e \<Rightarrow> (Inl e, s, [])
      | Inr repeat \<Rightarrow>
     (case py_range repeat of
        Inl e \<Rightarrow> (Inl e, s, [])
      | Inr n \<Rightarrow> repeat_loop (RunCommand command) n s)))"

definition execute_sleep :: "platform \<Rightarrow> json \<Rightarrow> (unit, effect) run" where
  "execute_sleep pf action s =
     (case py_get action ''seconds'' (JInt 0) of
        Inl e \<Rightarrow> (Inl e, s, [])
      | Inr seconds \<Rightarrow> time_sleep pf Pause seconds s)"

definition execute :: "platform \<Rightarrow> json \<Rightarrow> (unit, effect) run" where
  "execute pf action s =
     (case py_get action ''enabled'' (JBool True) of
        Inl e \<Rightarrow> (Inl e, s, [])
      | Inr enabled \<Rightarrow>
          if \<not> truthy enabled then (Inr (), s, [])
          else
     (case py_get action ''condition'' JNull of
        Inl e \<Rightarrow> (Inl e, s, [])
      | Inr condition \<Rightarrow>
     (case (if truthy condition then check (os_nt pf) condition s else (Inr True, s, [])) of
        (Inl e, s1, ev1) \<Rightarrow> (Inl e, s1, ev1)
      | (Inr passed, s1, ev1) \<Rightarrow>
          if \<not> passed then (Inr (), s1, ev1)
          else
     (case py_get action ''action_type'' JNull of
        Inl e \<Rightarrow> (Inl e, s1, ev1)
      | Inr action_type \<Rightarrow>
     (case (if action_type = JStr ''keyboard'' then execute_keyboard action s1
            else if action_type = JStr ''command'' then execute_command action s1
            else if action_type = JStr ''sleep'' then execute_sleep pf action s1
            else (Inr (), s1, [WarnUnknownAction action_type])) of
        (Inl e, s2, ev2) \<Rightarrow> (Inr (), s2, ev1 @ ev2)
      | (Inr u, s2, ev2) \<Rightarrow> (Inr (), s2, ev1 @ ev2))))))"

section \<open>trigger\_manager.py\<close>

text \<open>
  A parallel block starts one thread per child, each running \<open>execute\<close> on that child,
  and joins them all. An exception in a thread ends that thread only; it never reaches
  the code that started it. The model runs the children one after the other, which is
  one of the schedules the threads admit.
\<close>

fun run_threads :: "platform \<Rightarrow> json list \<Rightarrow> (unit, effect) run" where
  "run_threads pf [] s = (Inr (), s, [])"
| "run_threads pf (action # rest) s =
     (case execute pf action s of
        (res1, s1, ev1) \<Rightarrow>
          (case run_threads pf rest s1 of
             (res2, s2, ev2) \<Rightarrow> (Inr (), s2, ev1 @ ev2)))"

definition execute_parallel_block :: "platform \<Rightarrow> json \<Rightarrow> (unit, effect) run" where
  "execute_parallel_block pf parallel_block s =
     (case py_get parallel_block ''actions'' (JList []) of
        Inl e \<Rightarrow> (Inl e, s, [])
      | Inr parallel_actions \<Rightarrow>
     (case py_iter parallel_actions of
        Inl e \<Rightarrow> (Inl e, s, [])
      | Inr children \<Rightarrow> run_threads pf children s))"

text \<open>The loop \<^verbatim>\<open>for item in actions\<close>: an exception of an item ends the loop.\<close>

fun action_loop :: "platform \<Rightarrow> json list \<Rightarrow> (unit, effect) run" where
  "action_loop pf [] s = (Inr (), s, [])"
| "action_loop pf (item # rest) s =
     (case (if is_dict item \<and> py_get item ''action_type'' JNull = Inr (JStr ''parallel'')
            then execute_parallel_block pf item s
            else execute pf item s) of
        (Inl e, s1, ev1) \<Rightarrow> (Inl e, s1, ev1)
      | (Inr u, s1, ev1) \<Rightarrow>
          (case action_loop pf rest s1 of
             (res, s2, ev2) \<Rightarrow> (res, s2, ev1 @ ev2)))"

definition execute_action_list :: "platform \<Rightarrow> json \<Rightarrow> (unit, effect) run" where
  "execute_action_list pf actions s =
     (if \<not> truthy actions then (Inr (), s, [])
      else
        (case py_iter actions of
           Inl e \<Rightarrow> (Inl e, s, [])
         | Inr items \<Rightarrow> action_loop pf items s))"

text \<open>\<open>triggers\<close> is \<^verbatim>\<open>self.triggers\<close>, the \<^verbatim>\<open>triggers\<close> section of the configuration.\<close>

definition execute_trigger :: "platform \<Rightarrow> json \<Rightarrow> string \<Rightarrow> (unit, effect) run" where
  "execute_trigger pf triggers trigger_name s =
     (case py_contains trigger_name triggers of
        Inl e \<Rightarrow> (Inl e, s, [])
      | Inr found \<Rightarrow>
          if \<not> found then (Inr (), s, [WarnTriggerNotFound trigger_name])
          else
     (case py_subscript triggers trigger_name of
        Inl e \<Rightarrow> (Inl e, s, [])
      | Inr actions \<Rightarrow> execute_action_list pf actions s))"

section \<open>neviweb\_client.py\<close>

text \<open>
  What the client does to the outside: its four HTTP requests, and the pause after a
  forced logout. Its log lines are not in the model.
\<close>

datatype call =
    PostLogin
  | PostLogout
  | GetDevices
  | GetAttributes json
  | Wait json

record client =
  session_id :: json
  devices :: "json list"

type_synonym 'a client_run =
  "client \<Rightarrow> outcome list \<Rightarrow> (exn + 'a) \<times> client \<times> outcome list \<times> call list"

text \<open>\<^verbatim>\<open>isinstance(x, dict) and k in x\<close>.\<close>

fun has_key :: "json \<Rightarrow> string \<Rightarrow> bool" where
  "has_key (JDict kvs) k = (k \<in> set (map fst kvs))"
| "has_key _ k = False"

text \<open>\<^verbatim>\<open>x[:20]\<close> is defined on a str and on a list only.\<close>

fun sliceable :: "json \<Rightarrow> bool" where
  "sliceable (JStr s) = True"
| "sliceable (JList xs) = True"
| "sliceable _ = False"

text \<open>
  The branch \<^verbatim>\<open>Too many sessions\<close> of \<open>login\<close>: the forced logout, whose failure is passed
  over (the two seconds are slept only when it did not fail), then the second login
  request. \<open>ev1\<close> are the calls of \<open>login\<close> so far.
\<close>

definition login_retry :: "call list \<Rightarrow> bool client_run" where
  "login_retry ev1 c s1 =
     (case (case external PostLogout s1 of
              (Inl e, s2, ev2) \<Rightarrow> (s2, ev2)
            | (Inr r, s2, ev2) \<Rightarrow> (s2, ev2 @ [Wait (JInt 2)])) of
        (s2, ev2) \<Rightarrow>
     (case external PostLogin s2 of
        (Inl e, s3, ev3) \<Rightarrow> (Inr False, c, s3, ev1 @ ev2 @ ev3)
      | (Inr result2, s3, ev3) \<Rightarrow>
          if has_key result2 ''session''
          then (case py_subscript result2 ''session'' of
                  Inl e \<Rightarrow> (Inl e, c, s3, ev1 @ ev2 @ ev3)
                | Inr sid \<Rightarrow> (Inr True, c\<lparr>session_id := sid\<rparr>, s3, ev1 @ ev2 @ ev3))
          else (Inr False, c, s3, ev1 @ ev2 @ ev3)))"

definition login :: "bool client_run" where
  "login c s =
     (case external PostLogin s of
        (Inl e, s1, ev1) \<Rightarrow> (Inr False, c, s1, ev1)
      | (Inr result, s1, ev1) \<Rightarrow>
          if has_key result ''session''
          then (case py_subscript result ''session'' of
                  Inl e \<Rightarrow> (Inl e, c, s1, ev1)
                | Inr sid \<Rightarrow>
                    if sliceable sid then (Inr True, c\<lparr>session_id := sid\<rparr>, s1, ev1)
                    else (Inl TypeError, c\<lparr>session_id := sid\<rparr>, s1, ev1))
          else if is_dict result
          then (case py_get result ''error'' (JDict []) of
                  Inl e \<Rightarrow> (Inl e, c, s1, ev1)
                | Inr err \<Rightarrow>
               (case py_get err ''code'' JNull of
                  Inl e \<Rightarrow> (Inl e, c, s1, ev1)
                | Inr code \<Rightarrow>
                    if code = JStr ''ACCSESSEXC'' then login_retry ev1 c s1
                    else (Inr False, c, s1, ev1)))
          else (Inr False, c, s1, ev1))"

definition get_devices :: "bool client_run" where
  "get_devices c s =
     (case external GetDevices s of
        (Inl e, s1, ev1) \<Rightarrow> (Inr False, c, s1, ev1)
      | (Inr data, s1, ev1) \<Rightarrow>
          if has_key data ''error'' then (Inr False, c, s1, ev1)
          else
            (let c1 = c\<lparr>devices := (case data of JList xs \<Rightarrow> xs | _ \<Rightarrow> [])\<rparr>
             in if devices c1 = [] then (Inr False, c1, s1, ev1)
                else if list_all is_dict (devices c1) then (Inr True, c1, s1, ev1)
                else (Inl AttributeError, c1, s1, ev1)))"

text \<open>Everything in \<open>get_device_attributes\<close> is inside its \<^verbatim>\<open>try\<close>: a failure gives \<^verbatim>\<open>None\<close>.\<close>

definition get_device_attributes :: "json \<Rightarrow> outcome list \<Rightarrow> json \<times> outcome list \<times> call list" where
  "get_device_attributes device_id s =
     (case external (GetAttributes device_id) s of
        (Inl e, s1, ev1) \<Rightarrow> (JNull, s1, ev1)
      | (Inr body, s1, ev1) \<Rightarrow> (body, s1, ev1))"

definition disconnect :: "client \<Rightarrow> outcome list \<Rightarrow> client \<times> outcome list \<times> call list" where
  "disconnect c s =
     (if \<not> truthy (session_id c) then (c, s, [])
      else
        (case external PostLogout s of
           (res, s1, ev1) \<Rightarrow> (c\<lparr>session_id := JNull\<rparr>, s1, ev1)))"

subsection \<open>Thermostat\<close>

text \<open>
  The thermostat holds a reference to the client object, which is the one object the
  monitor mutates; the model keeps the client beside the thermostat instead.
\<close>

record thermostat =
  device_id :: json
  name :: json
  device_info :: json

fun Thermostat :: "json \<Rightarrow> exn + thermostat" where
  "Thermostat (JDict kvs) =
     Inr \<lparr>device_id = dict_get kvs ''id'' JNull, name = dict_get kvs ''name'' JNull,
          device_info = JDict kvs\<rparr>"
| "Thermostat _ = Inl AttributeError"

definition get_all_info :: "thermostat \<Rightarrow> outcome list \<Rightarrow> json \<times> outcome list \<times> call list" where
  "get_all_info th s = get_device_attributes (device_id th) s"

text \<open>
  \<^verbatim>\<open>info.get("outputPercentDisplay", {}).get("percent", 0)\<close> inside \<^verbatim>\<open>try\<close>, with
  \<^verbatim>\<open>except Exception\<close> giving 0: the expression of both \<open>get_output_percent\<close> and \<open>main\<close>.
\<close>

definition extract_percent :: "json \<Rightarrow> json" where
  "extract_percent info =
     (case py_get info ''outputPercentDisplay'' (JDict []) of
        Inl e \<Rightarrow> JInt 0
      | Inr display \<Rightarrow>
          (case py_get display ''percent'' (JInt 0) of
             Inl e \<Rightarrow> JInt 0
           | Inr percent \<Rightarrow> percent))"

definition get_output_percent :: "thermostat \<Rightarrow> json \<Rightarrow> outcome list \<Rightarrow> json \<times> outcome list \<times> call list" where
  "get_output_percent th info s =
     (case (if info = JNull then get_all_info th s else (info, s, [])) of
        (info1, s1, ev1) \<Rightarrow>
          if \<not> truthy info1 \<or> \<not> is_dict info1 then (JInt 0, s1, ev1)
          else (extract_percent info1, s1, ev1))"

section \<open>monitor.py\<close>

text \<open>
  The events of the monitor: a call of the client, a sleep of the monitor itself (the
  backoff of \<open>reconnect\<close>, the poll interval), a call of \<open>execute_trigger\<close>, an effect of
  an action, and the warning that a sample has no \<^verbatim>\<open>outputPercentDisplay\<close>. The other log
  lines are not in the model.
\<close>

datatype event =
    Client call
  | Sleep json
  | Fired string
  | Action effect
  | WarnOmittedPercent


type_synonym 'a session_run =
  "client \<Rightarrow> outcome list \<Rightarrow> (exn + 'a) \<times> client \<times> outcome list \<times> event list"

subsection \<open>reconnect\<close>

text \<open>
  The body of the \<^verbatim>\<open>try\<close> of one reconnect attempt: \<open>login\<close>, then \<open>get_devices\<close>, each
  raising when it returns false. \<open>Inr ()\<close> is the attempt that succeeded.
\<close>

definition reconnect_attempt :: "unit session_run" where
  "reconnect_attempt c s =
     (case login c s of
        (Inl e, c1, s1, ev1) \<Rightarrow> (Inl e, c1, s1, map Client ev1)
      | (Inr logged_in, c1, s1, ev1) \<Rightarrow>
          if \<not> logged_in then (Inl (RuntimeError ''login failed''), c1, s1, map Client ev1)
          else
            (case get_devices c1 s1 of
               (Inl e, c2, s2, ev2) \<Rightarrow> (Inl e, c2, s2, map Client (ev1 @ ev2))
             | (Inr fetched, c2, s2, ev2) \<Rightarrow>
                 if \<not> fetched
                 then (Inl (RuntimeError ''get_devices failed''), c2, s2, map Client (ev1 @ ev2))
                 else (Inr (), c2, s2, map Client (ev1 @ ev2))))"

text \<open>
  The loop \<^verbatim>\<open>while attempt < max_attempts\<close>, from the value of \<open>attempt\<close> at the head of
  the loop. The sleep is in the \<^verbatim>\<open>except\<close> handler, so an exception of \<^verbatim>\<open>time.sleep\<close>
  leaves \<open>reconnect\<close>.
\<close>

function reconnect_loop :: "platform \<Rightarrow> int \<Rightarrow> int \<Rightarrow> nat \<Rightarrow> bool session_run" where
  "reconnect_loop pf max_attempts base_delay attempt c s =
     (if int attempt < max_attempts then
        (case reconnect_attempt c s of
           (Inr u, c1, s1, ev1) \<Rightarrow> (Inr True, c1, s1, ev1)
         | (Inl e, c1, s1, ev1) \<Rightarrow>
             (case time_sleep pf Sleep (JInt (base_delay * 2 ^ (Suc attempt - 1))) s1 of
                (Inl e2, s2, ev2) \<Rightarrow> (Inl e2, c1, s2, ev1 @ ev2)
              | (Inr u, s2, ev2) \<Rightarrow>
                  (case reconnect_loop pf max_attempts base_delay (Suc attempt) c1 s2 of
                     (res, c3, s3, ev3) \<Rightarrow> (res, c3, s3, ev1 @ ev2 @ ev3))))
      else (Inr False, c, s, []))"
  by pat_completeness auto
termination
  by (relation "measure (\<lambda>(pf, max_attempts, base_delay, attempt, c, s).
        nat (max_attempts - int attempt))")
     auto

declare reconnect_loop.simps [simp del]

definition reconnect :: "platform \<Rightarrow> int \<Rightarrow> int \<Rightarrow> bool session_run" where
  "reconnect pf max_attempts base_delay c s =
     (case disconnect c s of
        (c0, s0, ev0) \<Rightarrow>
          (case reconnect_loop pf max_attempts base_delay 0 c0 s0 of
             (res, c1, s1, ev1) \<Rightarrow> (res, c1, s1, map Client ev0 @ ev1)))"

subsection \<open>The configuration\<close>

datatype mode = Once | Monitor | Trigger

text \<open>
  What \<open>main\<close> keeps of the command line and the configuration file: \<^verbatim>\<open>args.mode\<close>,
  \<^verbatim>\<open>config.get("triggers", {})\<close>, \<^verbatim>\<open>auth.get("deviceId")\<close> and the poll interval.
\<close>

record config =
  mode :: mode
  triggers :: json
  deviceId :: json
  interval :: json

fun digits :: "nat \<Rightarrow> string" where
  "digits n =
     (if n < 10 then [char_of (48 + n)]
      else digits (n div 10) @ [char_of (48 + n mod 10)])"

declare digits.simps [simp del]

fun py_str :: "platform \<Rightarrow> json \<Rightarrow> string" where
  "py_str pf JNull = ''None''"
| "py_str pf (JBool b) = (if b then ''True'' else ''False'')"
| "py_str pf (JInt n) = (if n < 0 then CHR ''-'' # digits (nat (- n)) else digits (nat n))"
| "py_str pf (JStr s) = s"
| "py_str pf v = render pf v"

text \<open>
  \<^verbatim>\<open>next((d for d in client.devices if str(d.get("id")) == str(auth.get("deviceId"))), None)\<close>:
  the first device whose id has the text of the configured id; the generator stops there.
\<close>

fun find_device :: "platform \<Rightarrow> json \<Rightarrow> json list \<Rightarrow> exn + json" where
  "find_device pf wanted [] = Inr JNull"
| "find_device pf wanted (d # ds) =
     (case py_get d ''id'' JNull of
        Inl e \<Rightarrow> Inl e
      | Inr i \<Rightarrow> if py_str pf i = py_str pf wanted then Inr d else find_device pf wanted ds)"

subsection \<open>The state of the monitor loop\<close>

record monitor =
  client :: client
  thermostat :: thermostat
  last_percent :: json

type_synonym 'a monitor_run =
  "monitor \<Rightarrow> outcome list \<Rightarrow> (exn + 'a) \<times> monitor \<times> outcome list \<times> event list"

text \<open>
  The device is selected again after a reconnect: when it is found, the thermostat is
  built anew from it; when it is not, the thermostat stays.
\<close>

definition reselect_device :: "platform \<Rightarrow> config \<Rightarrow> monitor \<Rightarrow> exn + monitor" where
  "reselect_device pf cfg st =
     (case find_device pf (deviceId cfg) (devices (client st)) of
        Inl e \<Rightarrow> Inl e
      | Inr device \<Rightarrow>
          if \<not> truthy device then Inr st
          else
            (case Thermostat device of
               Inl e \<Rightarrow> Inl e
             | Inr th \<Rightarrow> Inr (st\<lparr>thermostat := th\<rparr>)))"

text \<open>\<^verbatim>\<open>time.sleep(interval)\<close> followed by \<^verbatim>\<open>continue\<close> (or by the end of the loop body).\<close>

definition sleep_interval :: "platform \<Rightarrow> config \<Rightarrow> event list \<Rightarrow> unit monitor_run" where
  "sleep_interval pf cfg ev st s =
     (case time_sleep pf Sleep (interval cfg) s of
        (res, s1, ev1) \<Rightarrow> (res, st, s1, ev @ ev1))"

text \<open>
  The two branches that reconnect and select the device again (no response, session
  expired), and the two that only reconnect (too many sessions, unknown error code).
  \<open>ev1\<close> are the events of the cycle so far.
\<close>

definition reconnect_and_reselect :: "platform \<Rightarrow> config \<Rightarrow> event list \<Rightarrow> unit monitor_run" where
  "reconnect_and_reselect pf cfg ev1 st s =
     (case reconnect pf 6 5 (client st) s of
        (Inl e, c2, s2, ev2) \<Rightarrow> (Inl e, st\<lparr>client := c2\<rparr>, s2, ev1 @ ev2)
      | (Inr reconnected, c2, s2, ev2) \<Rightarrow>
          if \<not> reconnected then sleep_interval pf cfg (ev1 @ ev2) (st\<lparr>client := c2\<rparr>) s2
          else
            (case reselect_device pf cfg (st\<lparr>client := c2\<rparr>) of
               Inl e \<Rightarrow> (Inl e, st\<lparr>client := c2\<rparr>, s2, ev1 @ ev2)
             | Inr st3 \<Rightarrow> sleep_interval pf cfg (ev1 @ ev2) st3 s2))"

definition reconnect_only :: "platform \<Rightarrow> config \<Rightarrow> event list \<Rightarrow> unit monitor_run" where
  "reconnect_only pf cfg ev1 st s =
     (case reconnect pf 6 5 (client st) s of
        (Inl e, c2, s2, ev2) \<Rightarrow> (Inl e, st\<lparr>client := c2\<rparr>, s2, ev1 @ ev2)
      | (Inr reconnected, c2, s2, ev2) \<Rightarrow> sleep_interval pf cfg (ev1 @ ev2) (st\<lparr>client := c2\<rparr>) s2)"

subsection \<open>The trigger logic\<close>

text \<open>
  A call of \<open>execute_trigger\<close>, recorded as \<open>Fired\<close>, with the effects of its actions
  after it.
\<close>

definition fire :: "platform \<Rightarrow> config \<Rightarrow> string \<Rightarrow> outcome list \<Rightarrow> (exn + unit) \<times> outcome list \<times> event list" where
  "fire pf cfg trigger_name s =
     (case execute_trigger pf (triggers cfg) trigger_name s of
        (res, s1, ev) \<Rightarrow> (res, s1, Fired trigger_name # map Action ev))"

text \<open>
  The body of the \<^verbatim>\<open>try\<close> of the trigger logic, with \<^verbatim>\<open>and\<close> evaluated from the left:
  the result is the new value of \<open>last_percent\<close>, or the exception that the
  \<^verbatim>\<open>except Exception\<close> of \<open>main\<close> then logs.
\<close>

definition trigger_logic :: "platform \<Rightarrow> config \<Rightarrow> json \<Rightarrow> json \<Rightarrow> outcome list \<Rightarrow> (exn + json) \<times> outcome list \<times> event list" where
  "trigger_logic pf cfg last_seen percent s =
     (if last_seen \<noteq> JNull then
        (case (if py_eq0 last_seen then py_gt0 percent else Inr False) of
           Inl e \<Rightarrow> (Inl e, s, [])
         | Inr heat_on \<Rightarrow>
             if heat_on then
               (case fire pf cfg ''on_heater_on'' s of
                  (Inl e, s1, ev) \<Rightarrow> (Inl e, s1, ev)
                | (Inr u, s1, ev) \<Rightarrow> (Inr percent, s1, ev))
             else
               (case (case py_gt0 last_seen of
                        Inl e \<Rightarrow> Inl e
                      | Inr positive \<Rightarrow> Inr (positive \<and> py_eq0 percent)) of
                  Inl e \<Rightarrow> (Inl e, s, [])
                | Inr heat_off \<Rightarrow>
                    if heat_off then
                      (case fire pf cfg ''on_heater_off'' s of
                         (Inl e, s1, ev) \<Rightarrow> (Inl e, s1, ev)
                       | (Inr u, s1, ev) \<Rightarrow> (Inr percent, s1, ev))
                    else (Inr percent, s, [])))
      else (Inr percent, s, []))"

subsection \<open>One pass of the loop of main\<close>

text \<open>
  The sample that is neither \<^verbatim>\<open>None\<close> nor an error object. \<^verbatim>\<open>"outputPercentDisplay" not in info\<close>
  is outside every \<^verbatim>\<open>try\<close>.
\<close>

definition process_sample :: "platform \<Rightarrow> config \<Rightarrow> json \<Rightarrow> event list \<Rightarrow> unit monitor_run" where
  "process_sample pf cfg info ev1 st s =
     (let percent = extract_percent info in
      case py_contains ''outputPercentDisplay'' info of
        Inl e \<Rightarrow> (Inl e, st, s, ev1)
      | Inr present \<Rightarrow>
          (let ev2 = ev1 @ (if \<not> present then [WarnOmittedPercent] else []) in
           if mode cfg = Trigger then
             (case trigger_logic pf cfg (last_percent st) percent s of
                (Inl e, s3, ev3) \<Rightarrow> sleep_interval pf cfg (ev2 @ ev3) st s3
              | (Inr new_last, s3, ev3) \<Rightarrow>
                  sleep_interval pf cfg (ev2 @ ev3) (st\<lparr>last_percent := new_last\<rparr>) s3)
           else sleep_interval pf cfg ev2 st s))"

text \<open>The sample that is an error object: \<^verbatim>\<open>info["error"].get("code")\<close> is outside every \<^verbatim>\<open>try\<close>.\<close>

definition handle_api_error :: "platform \<Rightarrow> config \<Rightarrow> json \<Rightarrow> event list \<Rightarrow> unit monitor_run" where
  "handle_api_error pf cfg info ev1 st s =
     (case py_subscript info ''error'' of
        Inl e \<Rightarrow> (Inl e, st, s, ev1)
      | Inr err \<Rightarrow>
     (case py_get err ''code'' JNull of
        Inl e \<Rightarrow> (Inl e, st, s, ev1)
      | Inr err_code \<Rightarrow>
          if err_code \<in> {JStr ''USRSESSEXP'', JStr ''SESSION_EXPIRED'', JStr ''SESSIONINVALID''}
          then reconnect_and_reselect pf cfg ev1 st s
          else if err_code = JStr ''ACCSESSEXC'' then reconnect_only pf cfg ev1 st s
          else reconnect_only pf cfg ev1 st s))"

text \<open>
  One pass of \<^verbatim>\<open>while True\<close>. \<open>Inr ()\<close>: the pass ended and the loop goes on. \<open>Inl e\<close>: the
  exception \<open>e\<close> left the loop, and with it \<open>main\<close>.
\<close>

definition poll_cycle :: "platform \<Rightarrow> config \<Rightarrow> unit monitor_run" where
  "poll_cycle pf cfg st s =
     (case get_all_info (thermostat st) s of
        (info, s1, ev1) \<Rightarrow>
          if info = JNull then reconnect_and_reselect pf cfg (map Client ev1) st s1
          else if has_key info ''error'' then handle_api_error pf cfg info (map Client ev1) st s1
          else process_sample pf cfg info (map Client ev1) st s1)"

subsection \<open>main\<close>

text \<open>
  How the process ends: the three \<^verbatim>\<open>return\<close>s of the start, the end of the one-shot mode
  (with what it printed), or an exception that nothing caught. The interrupt from the
  keyboard is not in the model.
\<close>

datatype exit =
    LoginFailed
  | DeviceFetchFailed
  | DeviceNotFound
  | OnceDone json
  | Uncaught exn

text \<open>
  The start of \<open>main\<close>, up to the loop: \<open>Inl\<close> the way the process ended, \<open>Inr\<close> the state
  with which the loop is entered. The hook registered with \<^verbatim>\<open>atexit\<close> disconnects when the
  process ends.
\<close>

definition at_exit :: "exit \<Rightarrow> client \<Rightarrow> outcome list \<Rightarrow> call list \<Rightarrow> (exit + monitor) \<times> outcome list \<times> event list" where
  "at_exit how c s ev =
     (case disconnect c s of
        (c1, s1, ev1) \<Rightarrow> (Inl how, s1, map Client (ev @ ev1)))"

definition startup :: "platform \<Rightarrow> config \<Rightarrow> outcome list \<Rightarrow> (exit + monitor) \<times> outcome list \<times> event list" where
  "startup pf cfg s =
     (case login \<lparr>session_id = JNull, devices = []\<rparr> s of
        (Inl e, c1, s1, ev1) \<Rightarrow> at_exit (Uncaught e) c1 s1 ev1
      | (Inr logged_in, c1, s1, ev1) \<Rightarrow>
          if \<not> logged_in then at_exit LoginFailed c1 s1 ev1
          else
     (case get_devices c1 s1 of
        (Inl e, c2, s2, ev2) \<Rightarrow> at_exit (Uncaught e) c2 s2 (ev1 @ ev2)
      | (Inr fetched, c2, s2, ev2) \<Rightarrow>
          if \<not> fetched then at_exit DeviceFetchFailed c2 s2 (ev1 @ ev2)
          else
     (case find_device pf (deviceId cfg) (devices c2) of
        Inl e \<Rightarrow> at_exit (Uncaught e) c2 s2 (ev1 @ ev2)
      | Inr device \<Rightarrow>
          if \<not> truthy device then at_exit DeviceNotFound c2 s2 (ev1 @ ev2)
          else
     (case Thermostat device of
        Inl e \<Rightarrow> at_exit (Uncaught e) c2 s2 (ev1 @ ev2)
      | Inr th \<Rightarrow>
          if mode cfg = Once then
            (case get_all_info th s2 of
               (info, s3, ev3) \<Rightarrow> at_exit (OnceDone info) c2 s3 (ev1 @ ev2 @ ev3))
          else
            (Inr \<lparr>client = c2, thermostat = th, last_percent = JNull\<rparr>, s2,
             map Client (ev1 @ ev2))))))"

text \<open>
  The loop, for at most \<open>n\<close> passes: \<open>None\<close> when the process is still in the loop after
  them, \<open>Some\<close> the exception that ended it. The \<^verbatim>\<open>finally\<close> of \<open>main\<close> disconnects.
\<close>

fun run_loop :: "platform \<Rightarrow> config \<Rightarrow> nat \<Rightarrow> monitor \<Rightarrow> outcome list \<Rightarrow> exit option \<times> monitor \<times> outcome list \<times> event list" where
  "run_loop pf cfg 0 st s = (None, st, s, [])"
| "run_loop pf cfg (Suc n) st s =
     (case poll_cycle pf cfg st s of
        (Inl e, st1, s1, ev1) \<Rightarrow>
          (case disconnect (client st1) s1 of
             (c2, s2, ev2) \<Rightarrow> (Some (Uncaught e), st1\<lparr>client := c2\<rparr>, s2, ev1 @ map Client ev2))
      | (Inr u, st1, s1, ev1) \<Rightarrow>
          (case run_loop pf cfg n st1 s1 of
             (res, st2, s2, ev2) \<Rightarrow> (res, st2, s2, ev1 @ ev2)))"

definition main :: "platform \<Rightarrow> config \<Rightarrow> nat \<Rightarrow> outcome list \<Rightarrow> exit option \<times> outcome list \<times> event list" where
  "main pf cfg n s =
     (case startup pf cfg s of
        (Inl how, s1, ev1) \<Rightarrow> (Some how, s1, ev1)
      | (Inr st, s1, ev1) \<Rightarrow>
          (case run_loop pf cfg n st s1 of
             (res, st2, s2, ev2) \<Rightarrow> (res, s2, ev1 @ ev2)))"

section \<open>Vocabulary of the properties\<close>

text \<open>
  The parts of what a function returns: the effects of a function of the executor or
  the trigger manager; the state that a function of the client or the monitor leaves,
  and the events it caused.
\<close>

definition state_of :: "'r \<times> 'st \<times> outcome list \<times> 'e list \<Rightarrow> 'st" where
  "state_of r = fst (snd r)"


definition events_of :: "'r \<times> 'st \<times> outcome list \<times> 'e list \<Rightarrow> 'e list" where
  "events_of r = snd (snd (snd r))"


text \<open>A percent as the specification wants it: an integer from 0 to 100.\<close>

fun valid_percent :: "json \<Rightarrow> bool" where
  "valid_percent (JInt n) = (0 \<le> n \<and> n \<le> 100)"
| "valid_percent _ = False"


section \<open>Properties\<close>

subsection \<open>Lookups\<close>

lemma dict_get_simps:
  "dict_get [] k d = d"
  "dict_get ((k', v) # kvs) k d = (if k' = k then v else dict_get kvs k d)"
  by (simp_all add: dict_get_def)

lemma has_key_map_of: "has_key (JDict kvs) k = (map_of kvs k \<noteq> None)"
  by (simp add: map_of_eq_None_iff)

lemma state_of_tuple [simp]: "state_of (r, st, s, ev) = st"
  by (simp add: state_of_def)

lemma events_of_tuple [simp]: "events_of (r, st, s, ev) = ev"
  by (simp add: events_of_def)

lemma no_key_dict_get: "\<not> has_key (JDict kvs) k \<Longrightarrow> dict_get kvs k d = d"
  by (simp add: has_key_map_of dict_get_def del: has_key.simps)

subsection \<open>The trigger logic\<close>
















subsection \<open>The recorded percent\<close>











subsection \<open>The condition checker\<close>

text \<open>A condition that is absent (falsy) or a dict gets an answer from \<open>check\<close>: nothing is raised.\<close>

lemma check_returns:
  assumes "\<not> truthy condition \<or> is_dict condition"
  shows "\<exists>b. fst (check nt condition s) = Inr b"
proof (cases "truthy condition")
  case False
  then show ?thesis by (auto simp: check_def)
next
  case True
  with assms obtain kvs where "condition = JDict kvs" by (cases condition) auto
  then show ?thesis
    by (auto simp: check_def split: prod.splits sum.splits)
qed

text \<open>
  Claim C3. For every condition given to the condition checker: an absent (falsy)
  condition is true; a condition (a dict) whose type is not \<^verbatim>\<open>ping\<close> is true, with a
  warning; and when the evaluation of a \<^verbatim>\<open>ping\<close> condition raises, the answer is false.
  A condition that is a dict always gets an answer.
\<close>

theorem check_absent_unknown_error:
  "(\<not> truthy condition \<longrightarrow> check nt condition s = (Inr True, s, []))
   \<and> (kvs \<noteq> [] \<and> dict_get kvs ''type'' JNull \<noteq> JStr ''ping'' \<longrightarrow>
        check nt (JDict kvs) s = (Inr True, s, [WarnUnknownCondition (dict_get kvs ''type'' JNull)]))
   \<and> (kvs \<noteq> [] \<and> dict_get kvs ''type'' JNull = JStr ''ping''
        \<and> fst (check_ping nt (JDict kvs) s) = Inl e \<longrightarrow>
        fst (check nt (JDict kvs) s) = Inr False)
   \<and> (\<exists>b. fst (check nt (JDict kvs) s) = Inr b)"
proof (intro conjI impI)
  show "\<exists>b. fst (check nt (JDict kvs) s) = Inr b"
    by (rule check_returns) simp
qed (auto simp: check_def split: prod.splits sum.splits)

theorem check_absent_unknown_error_witness:
  "check False JNull [] = (Inr True, [], [])
   \<and> check False (JDict [(''type'', JStr ''dns'')]) [] =
       (Inr True, [], [WarnUnknownCondition (JStr ''dns'')])
   \<and> fst (check_ping False (JDict [(''type'', JStr ''ping''), (''timeout'', JStr ''soon'')]) [])
       = Inl TypeError
   \<and> fst (check False (JDict [(''type'', JStr ''ping''), (''timeout'', JStr ''soon'')]) [])
       = Inr False"
  using check_absent_unknown_error [where condition = JNull and nt = False and s = "[]"
      and kvs = "[(''type'', JStr ''dns'')]"]
    check_absent_unknown_error [where condition = JNull and nt = False and s = "[]"
      and kvs = "[(''type'', JStr ''ping''), (''timeout'', JStr ''soon'')]" and e = TypeError]
  by (simp add: check_ping_def dict_get_simps)

subsection \<open>The action executor\<close>

text \<open>
  Claim C4, as stated, fails: an action that is not a dict, or a condition that is
  neither falsy nor a dict, raises AttributeError before any \<^verbatim>\<open>try\<close> is entered, and the
  exception goes through the trigger manager.
\<close>

theorem execute_non_dict_counterexample:
  "fst (execute
        \<lparr>os_nt = False, render = (\<lambda>v. []),
         sleep_refused = (\<lambda>r. if 4294967 < r then Some OSError else None)\<rparr>
        (JStr ''F13'') []) = Inl AttributeError
   \<and> fst (check False (JStr ''ping'') []) = Inl AttributeError
   \<and> fst (execute
        \<lparr>os_nt = False, render = (\<lambda>v. []),
         sleep_refused = (\<lambda>r. if 4294967 < r then Some OSError else None)\<rparr>
        (JDict [(''action_type'', JStr ''keyboard''), (''condition'', JStr ''ping'')]) [])
       = Inl AttributeError
   \<and> fst (execute_trigger
        \<lparr>os_nt = False, render = (\<lambda>v. []),
         sleep_refused = (\<lambda>r. if 4294967 < r then Some OSError else None)\<rparr>
        (JDict [(''on_heater_on'', JList [JStr ''F13''])]) ''on_heater_on'' [])
       = Inl AttributeError"
  by (simp add: execute_def check_def execute_trigger_def execute_action_list_def dict_get_simps)


text \<open>
  Claim C4, amended. For every action that is a dict whose condition is absent (falsy)
  or a dict, \<open>execute\<close> returns without an exception, whatever the calls to the outside
  do: an error raised while the action is dispatched is caught. For every condition that
  is falsy or a dict, \<open>check\<close> returns without an exception.
\<close>

theorem execute_swallows_dispatch_errors:
  "((\<not> truthy (dict_get kvs ''condition'' JNull) \<or> is_dict (dict_get kvs ''condition'' JNull))
      \<longrightarrow> fst (execute pf (JDict kvs) s) = Inr ())
   \<and> ((\<not> truthy condition \<or> is_dict condition) \<longrightarrow> (\<exists>b. fst (check nt condition s) = Inr b))"
proof (intro conjI impI)
  assume c: "\<not> truthy (dict_get kvs ''condition'' JNull) \<or> is_dict (dict_get kvs ''condition'' JNull)"
  from check_returns [OF c] obtain b where
    "fst (check (os_nt pf) (dict_get kvs ''condition'' JNull) s) = Inr b" by blast
  then show "fst (execute pf (JDict kvs) s) = Inr ()"
    by (auto simp: execute_def split: prod.splits sum.splits)
next
  assume "\<not> truthy condition \<or> is_dict condition"
  then show "\<exists>b. fst (check nt condition s) = Inr b" by (rule check_returns)
qed

theorem execute_swallows_dispatch_errors_witness:
  "is_dict (JDict [(''type'', JStr ''ping''), (''host'', JStr ''tv'')])
   \<and> fst (execute
        \<lparr>os_nt = False, render = (\<lambda>v. []),
         sleep_refused = (\<lambda>r. if 4294967 < r then Some OSError else None)\<rparr>
        (JDict [(''action_type'', JStr ''keyboard''), (''key'', JStr ''F13'')]) [Raises]) = Inr ()
   \<and> fst (execute_keyboard (JDict [(''action_type'', JStr ''keyboard''), (''key'', JStr ''F13'')]) [Raises]) = Inl ExternalError
   \<and> (\<exists>b. fst (check False (JDict [(''type'', JStr ''ping''), (''host'', JStr ''tv'')]) [Raises]) = Inr b)"
  using execute_swallows_dispatch_errors
      [where kvs = "[(''action_type'', JStr ''keyboard''), (''key'', JStr ''F13'')]"
         and condition = "JDict [(''type'', JStr ''ping''), (''host'', JStr ''tv'')]"
         and nt = False and s = "[Raises]"
         and pf = "\<lparr>os_nt = False, render = (\<lambda>v. []),
              sleep_refused = (\<lambda>r. if 4294967 < r then Some OSError else None)\<rparr>"]
  by (simp add: dict_get_simps execute_keyboard_def external_def)

subsection \<open>The percent of a sample\<close>

text \<open>
  The percent is 0 when the sample has no \<^verbatim>\<open>outputPercentDisplay\<close>, and when that field has
  no \<^verbatim>\<open>percent\<close>; otherwise it is the value of \<^verbatim>\<open>percent\<close>, whatever that value is.
\<close>

lemma extract_percent_default_or_field:
  "(\<not> has_key info ''outputPercentDisplay'' \<longrightarrow> extract_percent info = JInt 0)
   \<and> (map_of kvs ''outputPercentDisplay'' = Some display \<and> \<not> has_key display ''percent''
        \<longrightarrow> extract_percent (JDict kvs) = JInt 0)
   \<and> (map_of kvs ''outputPercentDisplay'' = Some (JDict inner) \<and> map_of inner ''percent'' = Some v
        \<longrightarrow> extract_percent (JDict kvs) = v
            \<and> (valid_percent v \<longrightarrow> valid_percent (extract_percent (JDict kvs))))"
proof (intro conjI impI)
  assume "\<not> has_key info ''outputPercentDisplay''"
  then show "extract_percent info = JInt 0"
    by (cases info) (simp_all add: extract_percent_def no_key_dict_get dict_get_simps del: has_key.simps)
next
  assume "map_of kvs ''outputPercentDisplay'' = Some display \<and> \<not> has_key display ''percent''"
  then show "extract_percent (JDict kvs) = JInt 0"
    by (cases display) (simp_all add: extract_percent_def dict_get_def has_key_map_of del: has_key.simps)
next
  assume a: "map_of kvs ''outputPercentDisplay'' = Some (JDict inner) \<and> map_of inner ''percent'' = Some v"
  then show e: "extract_percent (JDict kvs) = v"
    by (simp add: extract_percent_def dict_get_def)
  assume "valid_percent v"
  then show "valid_percent (extract_percent (JDict kvs))" using a
    by (simp add: extract_percent_def dict_get_def)
qed

text \<open>
  Claim C5 against the code. The sample has the field \<^verbatim>\<open>percent\<close> with the value null.
  \<open>get_output_percent\<close>, documented to return an int from 0 to 100, returns \<^verbatim>\<open>None\<close>; so
  does the expression of \<open>main\<close>, and in trigger mode \<^verbatim>\<open>None\<close> becomes the recorded percent.
  The value 150 is passed on in the same way.
\<close>

theorem null_percent_is_passed_on:
  "fst (get_output_percent
      \<lparr>device_id = JStr ''t1'', name = JStr ''Hall'', device_info = JDict []\<rparr>
      (JDict [(''outputPercentDisplay'', JDict [(''percent'', JNull)])]) []) = JNull
   \<and> extract_percent (JDict [(''outputPercentDisplay'', JDict [(''percent'', JNull)])]) = JNull
   \<and> \<not> valid_percent
         (extract_percent (JDict [(''outputPercentDisplay'', JDict [(''percent'', JNull)])]))
   \<and> last_percent (state_of (poll_cycle
        \<lparr>os_nt = False, render = (\<lambda>v. []),
        sleep_refused = (\<lambda>r. if 4294967 < r then Some OSError else None)\<rparr>
        \<lparr>mode = Trigger, triggers = JDict [], deviceId = JStr ''t1'', interval = JInt 10\<rparr>
        \<lparr>client = \<lparr>session_id = JStr ''abc'', devices = []\<rparr>,
         thermostat = \<lparr>device_id = JStr ''t1'', name = JStr ''Hall'', device_info = JDict []\<rparr>,
         last_percent = JInt 45\<rparr>
        [Returns (JDict [(''outputPercentDisplay'', JDict [(''percent'', JNull)])])])) = JNull
   \<and> \<not> valid_percent
         (extract_percent (JDict [(''outputPercentDisplay'', JDict [(''percent'', JInt 150)])]))"
  by code_simp

theorem null_percent_is_passed_on_witness:
  "truthy (JDict [(''outputPercentDisplay'', JDict [(''percent'', JNull)])])
   \<and> is_dict (JDict [(''outputPercentDisplay'', JDict [(''percent'', JNull)])])
   \<and> fst (get_output_percent
      \<lparr>device_id = JStr ''t1'', name = JStr ''Hall'', device_info = JDict []\<rparr>
      (JDict [(''outputPercentDisplay'', JDict [(''percent'', JNull)])]) []) = JNull"
  using null_percent_is_passed_on by simp

subsection \<open>reconnect\<close>








lemma exhausted_reselect:
  "sleep_error pf (interval cfg) = None \<Longrightarrow> reconnect pf 6 5 (client st) s = (Inr False, c2, s2, ev2) \<Longrightarrow>
   reconnect_and_reselect pf cfg ev1 st s
     = (Inr (), st\<lparr>client := c2\<rparr>, s2, ev1 @ ev2 @ [Sleep (interval cfg)])"
  by (simp add: reconnect_and_reselect_def sleep_interval_def time_sleep_def)

lemma exhausted_only:
  "sleep_error pf (interval cfg) = None \<Longrightarrow> reconnect pf 6 5 (client st) s = (Inr False, c2, s2, ev2) \<Longrightarrow>
   reconnect_only pf cfg ev1 st s
     = (Inr (), st\<lparr>client := c2\<rparr>, s2, ev1 @ ev2 @ [Sleep (interval cfg)])"
  by (simp add: reconnect_only_def sleep_interval_def time_sleep_def)

lemma exhausted_cycle:
  assumes "sleep_error pf (interval cfg) = None"
    and "get_all_info (thermostat st) s = (info, s1, ev1)"
    and "info = JNull \<or> (has_key info ''error'' \<and> py_subscript info ''error'' = Inr (JDict err))"
    and "fst (reconnect pf 6 5 (client st) s1) = Inr False"
  shows "fst (poll_cycle pf cfg st s) = Inr ()
    \<and> last (events_of (poll_cycle pf cfg st s)) = Sleep (interval cfg)"
proof -
  obtain c2 s2 ev2 where r: "reconnect pf 6 5 (client st) s1 = (Inr False, c2, s2, ev2)"
    using assms(4) by (cases "reconnect pf 6 5 (client st) s1") auto
  note a = exhausted_reselect [OF assms(1) r] exhausted_only [OF assms(1) r]
  from assms(3) show ?thesis
  proof
    assume "info = JNull"
    then show ?thesis by (simp add: poll_cycle_def assms(2) a events_of_def)
  next
    assume "has_key info ''error'' \<and> py_subscript info ''error'' = Inr (JDict err)"
    moreover from this have "info \<noteq> JNull" by auto
    ultimately show ?thesis
      by (simp add: poll_cycle_def assms(2) handle_api_error_def a events_of_def)
  qed
qed




subsection \<open>The device after a reconnect\<close>

text \<open>
  Claim C7 against the code. The device was listed as \<^verbatim>\<open>Hall\<close>; the sample is the error
  object \<^verbatim>\<open>ACCSESSEXC\<close>; the reconnect succeeds and the refreshed list names the device
  \<^verbatim>\<open>Bedroom\<close>. The pass ends with the refreshed list in the client and the thermostat
  still built from the old entry, although selecting the device again would give the
  new one. With the code \<^verbatim>\<open>USRSESSEXP\<close>, and the same responses, the thermostat is the new one.
\<close>

theorem accsessexc_keeps_old_device:
  "fst (poll_cycle
      \<lparr>os_nt = False, render = (\<lambda>v. []),
        sleep_refused = (\<lambda>r. if 4294967 < r then Some OSError else None)\<rparr>
      \<lparr>mode = Trigger, triggers = JDict [], deviceId = JStr ''t1'', interval = JInt 10\<rparr>
      \<lparr>client = \<lparr>session_id = JStr ''abc'',
                  devices = [JDict [(''id'', JStr ''t1''), (''name'', JStr ''Hall'')]]\<rparr>,
       thermostat = \<lparr>device_id = JStr ''t1'', name = JStr ''Hall'',
                     device_info = JDict [(''id'', JStr ''t1''), (''name'', JStr ''Hall'')]\<rparr>,
       last_percent = JInt 0\<rparr>
      [Returns (JDict [(''error'', JDict [(''code'', JStr ''ACCSESSEXC'')])]),
       Returns JNull,
       Returns (JDict [(''session'', JStr ''def'')]),
       Returns (JList [JDict [(''id'', JStr ''t1''), (''name'', JStr ''Bedroom'')]])]) = Inr ()
   \<and> state_of (poll_cycle
      \<lparr>os_nt = False, render = (\<lambda>v. []),
        sleep_refused = (\<lambda>r. if 4294967 < r then Some OSError else None)\<rparr>
      \<lparr>mode = Trigger, triggers = JDict [], deviceId = JStr ''t1'', interval = JInt 10\<rparr>
      \<lparr>client = \<lparr>session_id = JStr ''abc'',
                  devices = [JDict [(''id'', JStr ''t1''), (''name'', JStr ''Hall'')]]\<rparr>,
       thermostat = \<lparr>device_id = JStr ''t1'', name = JStr ''Hall'',
                     device_info = JDict [(''id'', JStr ''t1''), (''name'', JStr ''Hall'')]\<rparr>,
       last_percent = JInt 0\<rparr>
      [Returns (JDict [(''error'', JDict [(''code'', JStr ''ACCSESSEXC'')])]),
       Returns JNull,
       Returns (JDict [(''session'', JStr ''def'')]),
       Returns (JList [JDict [(''id'', JStr ''t1''), (''name'', JStr ''Bedroom'')]])])
     = \<lparr>client = \<lparr>session_id = JStr ''def'',
                   devices = [JDict [(''id'', JStr ''t1''), (''name'', JStr ''Bedroom'')]]\<rparr>,
        thermostat = \<lparr>device_id = JStr ''t1'', name = JStr ''Hall'',
                      device_info = JDict [(''id'', JStr ''t1''), (''name'', JStr ''Hall'')]\<rparr>,
        last_percent = JInt 0\<rparr>
   \<and> reselect_device
      \<lparr>os_nt = False, render = (\<lambda>v. []),
        sleep_refused = (\<lambda>r. if 4294967 < r then Some OSError else None)\<rparr>
      \<lparr>mode = Trigger, triggers = JDict [], deviceId = JStr ''t1'', interval = JInt 10\<rparr>
      \<lparr>client = \<lparr>session_id = JStr ''def'',
                   devices = [JDict [(''id'', JStr ''t1''), (''name'', JStr ''Bedroom'')]]\<rparr>,
        thermostat = \<lparr>device_id = JStr ''t1'', name = JStr ''Hall'',
                      device_info = JDict [(''id'', JStr ''t1''), (''name'', JStr ''Hall'')]\<rparr>,
        last_percent = JInt 0\<rparr>
     = Inr \<lparr>client = \<lparr>session_id = JStr ''def'',
                   devices = [JDict [(''id'', JStr ''t1''), (''name'', JStr ''Bedroom'')]]\<rparr>,
        thermostat = \<lparr>device_id = JStr ''t1'', name = JStr ''Bedroom'',
                      device_info = JDict [(''id'', JStr ''t1''), (''name'', JStr ''Bedroom'')]\<rparr>,
        last_percent = JInt 0\<rparr>
   \<and> thermostat (state_of (poll_cycle
      \<lparr>os_nt = False, render = (\<lambda>v. []),
        sleep_refused = (\<lambda>r. if 4294967 < r then Some OSError else None)\<rparr>
      \<lparr>mode = Trigger, triggers = JDict [], deviceId = JStr ''t1'', interval = JInt 10\<rparr>
      \<lparr>client = \<lparr>session_id = JStr ''abc'',
                  devices = [JDict [(''id'', JStr ''t1''), (''name'', JStr ''Hall'')]]\<rparr>,
       thermostat = \<lparr>device_id = JStr ''t1'', name = JStr ''Hall'',
                     device_info = JDict [(''id'', JStr ''t1''), (''name'', JStr ''Hall'')]\<rparr>,
       last_percent = JInt 0\<rparr>
      [Returns (JDict [(''error'', JDict [(''code'', JStr ''USRSESSEXP'')])]),
       Returns JNull,
       Returns (JDict [(''session'', JStr ''def'')]),
       Returns (JList [JDict [(''id'', JStr ''t1''), (''name'', JStr ''Bedroom'')]])]))
     = \<lparr>device_id = JStr ''t1'', name = JStr ''Bedroom'',
        device_info = JDict [(''id'', JStr ''t1''), (''name'', JStr ''Bedroom'')]\<rparr>"
  by code_simp

subsection \<open>The start of main\<close>

lemma find_device_dicts:
  "list_all is_dict ds \<Longrightarrow>
   \<exists>d. find_device pf wanted ds = Inr d \<and> (d = JNull \<or> is_dict d)"
proof (induction ds)
  case Nil
  then show ?case by simp
next
  case (Cons d ds)
  then obtain kvs where "d = JDict kvs" by (cases d) auto
  with Cons show ?case by auto
qed

lemma get_devices_dicts:
  "get_devices c s = (Inr True, c2, s2, ev2) \<Longrightarrow> list_all is_dict (devices c2)"
  by (auto simp: get_devices_def Let_def split: prod.splits sum.splits if_splits)

lemma Thermostat_dict: "is_dict d \<Longrightarrow> \<exists>th. Thermostat d = Inr th"
  by (cases d) auto

text \<open>
  Claim C8, as stated, fails twice. The login and the device enumeration succeed, the
  configured device is not in the list, and \<open>main\<close> returns with \<^verbatim>\<open>Device ID not found\<close>.
  And with the poll interval -1, the pass of the loop whose reconnect is exhausted ends
  the process with the ValueError of \<^verbatim>\<open>time.sleep\<close>.
\<close>

theorem device_not_found_counterexample:
  "fst (login \<lparr>session_id = JNull, devices = []\<rparr>
      [Returns (JDict [(''session'', JStr ''abc'')]),
       Returns (JList [JDict [(''id'', JStr ''t2''), (''name'', JStr ''Attic'')]])]) = Inr True
   \<and> fst (get_devices \<lparr>session_id = JStr ''abc'', devices = []\<rparr>
      [Returns (JList [JDict [(''id'', JStr ''t2''), (''name'', JStr ''Attic'')]])]) = Inr True
   \<and> fst (main \<lparr>os_nt = False, render = (\<lambda>v. []),
        sleep_refused = (\<lambda>r. if 4294967 < r then Some OSError else None)\<rparr>
      \<lparr>mode = Trigger, triggers = JDict [], deviceId = JStr ''t1'', interval = JInt 10\<rparr>
      1
      [Returns (JDict [(''session'', JStr ''abc'')]),
       Returns (JList [JDict [(''id'', JStr ''t2''), (''name'', JStr ''Attic'')]])])
     = Some DeviceNotFound
   \<and> fst (reconnect
      \<lparr>os_nt = False, render = (\<lambda>v. []),
        sleep_refused = (\<lambda>r. if 4294967 < r then Some OSError else None)\<rparr>
      6 5 \<lparr>session_id = JStr ''abc'', devices = []\<rparr> []) = Inr False
   \<and> fst (run_loop
      \<lparr>os_nt = False, render = (\<lambda>v. []),
        sleep_refused = (\<lambda>r. if 4294967 < r then Some OSError else None)\<rparr>
      \<lparr>mode = Trigger, triggers = JDict [], deviceId = JStr ''t1'', interval = JInt (- 1)\<rparr>
      1
      \<lparr>client = \<lparr>session_id = JStr ''abc'', devices = []\<rparr>,
       thermostat = \<lparr>device_id = JStr ''t1'', name = JStr ''Hall'', device_info = JDict []\<rparr>,
       last_percent = JInt 0\<rparr> []) = Some (Uncaught ValueError)"
  by code_simp

text \<open>
  Claim C8, amended. The start of \<open>main\<close> ends the process with a login failure exactly
  when the first \<open>login\<close> returns false, and with a device fetch failure exactly when
  \<open>login\<close> returns true and \<open>get_devices\<close> returns false. When both return true, the
  lookup of the configured device raises nothing, and the start ends the process only
  when the device is not found (or, in the one-shot mode, after printing the sample);
  otherwise the loop is entered. When the poll interval is a duration that \<^verbatim>\<open>time.sleep\<close>
  accepts, a pass of the loop whose reconnect is exhausted does not end the process:
  after it the loop is still running.
\<close>

theorem startup_failures:
  "(fst (startup pf cfg s) = Inl LoginFailed
      \<longleftrightarrow> fst (login \<lparr>session_id = JNull, devices = []\<rparr> s) = Inr False)
   \<and> (login \<lparr>session_id = JNull, devices = []\<rparr> s = (Inr True, c1, s1, ev1) \<longrightarrow>
        (fst (startup pf cfg s) = Inl DeviceFetchFailed \<longleftrightarrow> fst (get_devices c1 s1) = Inr False))
   \<and> (login \<lparr>session_id = JNull, devices = []\<rparr> s = (Inr True, c1, s1, ev1)
        \<and> get_devices c1 s1 = (Inr True, c2, s2, ev2) \<longrightarrow>
        (\<exists>device. find_device pf (deviceId cfg) (devices c2) = Inr device
           \<and> (\<not> truthy device \<longrightarrow> fst (startup pf cfg s) = Inl DeviceNotFound)
           \<and> (truthy device \<and> mode cfg = Once \<longrightarrow>
                (\<exists>info. fst (startup pf cfg s) = Inl (OnceDone info)))
           \<and> (truthy device \<and> mode cfg \<noteq> Once \<longrightarrow>
                (\<exists>th. Thermostat device = Inr th
                   \<and> fst (startup pf cfg s)
                       = Inr \<lparr>client = c2, thermostat = th, last_percent = JNull\<rparr>))))
   \<and> (sleep_error pf (interval cfg) = None
        \<and> get_all_info (thermostat st) s = (info, s3, ev3)
        \<and> (info = JNull
            \<or> (has_key info ''error'' \<and> py_subscript info ''error'' = Inr (JDict err)))
        \<and> fst (reconnect pf 6 5 (client st) s3) = Inr False \<longrightarrow>
        fst (run_loop pf cfg 1 st s) = None)"
proof (intro conjI impI)
  show "fst (startup pf cfg s) = Inl LoginFailed
      \<longleftrightarrow> fst (login \<lparr>session_id = JNull, devices = []\<rparr> s) = Inr False"
    by (auto simp: startup_def at_exit_def split: prod.splits sum.splits if_splits)
next
  assume "login \<lparr>session_id = JNull, devices = []\<rparr> s = (Inr True, c1, s1, ev1)"
  then show "fst (startup pf cfg s) = Inl DeviceFetchFailed \<longleftrightarrow> fst (get_devices c1 s1) = Inr False"
    by (auto simp: startup_def at_exit_def split: prod.splits sum.splits if_splits)
next
  assume a: "login \<lparr>session_id = JNull, devices = []\<rparr> s = (Inr True, c1, s1, ev1)
        \<and> get_devices c1 s1 = (Inr True, c2, s2, ev2)"
  then have "list_all is_dict (devices c2)" by (auto dest: get_devices_dicts)
  from find_device_dicts [OF this] obtain d where
    d: "find_device pf (deviceId cfg) (devices c2) = Inr d" "d = JNull \<or> is_dict d"
    by blast
  show "\<exists>device. find_device pf (deviceId cfg) (devices c2) = Inr device
           \<and> (\<not> truthy device \<longrightarrow> fst (startup pf cfg s) = Inl DeviceNotFound)
           \<and> (truthy device \<and> mode cfg = Once \<longrightarrow>
                (\<exists>info. fst (startup pf cfg s) = Inl (OnceDone info)))
           \<and> (truthy device \<and> mode cfg \<noteq> Once \<longrightarrow>
                (\<exists>th. Thermostat device = Inr th
                   \<and> fst (startup pf cfg s)
                       = Inr \<lparr>client = c2, thermostat = th, last_percent = JNull\<rparr>))"
  proof (rule exI [of _ d], intro conjI impI)
    show "find_device pf (deviceId cfg) (devices c2) = Inr d" by (rule d)
  next
    assume "\<not> truthy d"
    with a d show "fst (startup pf cfg s) = Inl DeviceNotFound"
      by (simp add: startup_def at_exit_def split: prod.splits)
  next
    assume t: "truthy d \<and> mode cfg = Once"
    with d have "is_dict d" by auto
    then obtain th where "Thermostat d = Inr th" by (auto dest: Thermostat_dict)
    with a d t show "\<exists>info. fst (startup pf cfg s) = Inl (OnceDone info)"
      by (simp add: startup_def at_exit_def split: prod.splits)
  next
    assume t: "truthy d \<and> mode cfg \<noteq> Once"
    with d have "is_dict d" by auto
    then obtain th where "Thermostat d = Inr th" by (auto dest: Thermostat_dict)
    with a d t show "\<exists>th. Thermostat d = Inr th
        \<and> fst (startup pf cfg s) = Inr \<lparr>client = c2, thermostat = th, last_percent = JNull\<rparr>"
      by (simp add: startup_def)
  qed
next
  assume a: "sleep_error pf (interval cfg) = None
        \<and> get_all_info (thermostat st) s = (info, s3, ev3)
        \<and> (info = JNull
            \<or> (has_key info ''error'' \<and> py_subscript info ''error'' = Inr (JDict err)))
        \<and> fst (reconnect pf 6 5 (client st) s3) = Inr False"
  from a have a1: "sleep_error pf (interval cfg) = None"
    and a2: "get_all_info (thermostat st) s = (info, s3, ev3)"
    and a3: "info = JNull
            \<or> (has_key info ''error'' \<and> py_subscript info ''error'' = Inr (JDict err))"
    and a4: "fst (reconnect pf 6 5 (client st) s3) = Inr False"
    by simp_all
  from exhausted_cycle [OF a1 a2 a3 a4]
  have "fst (poll_cycle pf cfg st s) = Inr ()" by (rule conjunct1)
  then show "fst (run_loop pf cfg 1 st s) = None"
    by (cases "poll_cycle pf cfg st s") (simp add: One_nat_def del: One_nat_def [symmetric])
qed

theorem startup_failures_witness:
  "login \<lparr>session_id = JNull, devices = []\<rparr>
      [Returns (JDict [(''session'', JStr ''abc'')]),
       Returns (JList [JDict [(''id'', JStr ''t1''), (''name'', JStr ''Hall'')]])]
     = (Inr True, \<lparr>session_id = JStr ''abc'', devices = []\<rparr>,
        [Returns (JList [JDict [(''id'', JStr ''t1''), (''name'', JStr ''Hall'')]])], [PostLogin])
   \<and> get_devices \<lparr>session_id = JStr ''abc'', devices = []\<rparr>
      [Returns (JList [JDict [(''id'', JStr ''t1''), (''name'', JStr ''Hall'')]])]
     = (Inr True,
        \<lparr>session_id = JStr ''abc'',
         devices = [JDict [(''id'', JStr ''t1''), (''name'', JStr ''Hall'')]]\<rparr>, [], [GetDevices])
   \<and> fst (startup \<lparr>os_nt = False, render = (\<lambda>v. []),
        sleep_refused = (\<lambda>r. if 4294967 < r then Some OSError else None)\<rparr>
      \<lparr>mode = Trigger, triggers = JDict [], deviceId = JStr ''t1'', interval = JInt 10\<rparr>
      [Returns (JDict [(''session'', JStr ''abc'')]),
       Returns (JList [JDict [(''id'', JStr ''t1''), (''name'', JStr ''Hall'')]])])
     = Inr \<lparr>client = \<lparr>session_id = JStr ''abc'',
                devices = [JDict [(''id'', JStr ''t1''), (''name'', JStr ''Hall'')]]\<rparr>,
            thermostat = \<lparr>device_id = JStr ''t1'', name = JStr ''Hall'',
                device_info = JDict [(''id'', JStr ''t1''), (''name'', JStr ''Hall'')]\<rparr>,
            last_percent = JNull\<rparr>
   \<and> fst (startup \<lparr>os_nt = False, render = (\<lambda>v. []),
        sleep_refused = (\<lambda>r. if 4294967 < r then Some OSError else None)\<rparr>
      \<lparr>mode = Trigger, triggers = JDict [], deviceId = JStr ''t1'', interval = JInt 10\<rparr> [])
     = Inl LoginFailed
   \<and> fst (run_loop \<lparr>os_nt = False, render = (\<lambda>v. []),
        sleep_refused = (\<lambda>r. if 4294967 < r then Some OSError else None)\<rparr>
      \<lparr>mode = Trigger, triggers = JDict [], deviceId = JStr ''t1'', interval = JInt 10\<rparr>
      1
      \<lparr>client = \<lparr>session_id = JStr ''abc'', devices = []\<rparr>,
       thermostat = \<lparr>device_id = JStr ''t1'', name = JStr ''Hall'', device_info = JDict []\<rparr>,
       last_percent = JInt 0\<rparr> []) = None"
proof -
  have r: "fst (reconnect
      \<lparr>os_nt = False, render = (\<lambda>v. []),
        sleep_refused = (\<lambda>r. if 4294967 < r then Some OSError else None)\<rparr>
      6 5 \<lparr>session_id = JStr ''abc'', devices = []\<rparr> []) = Inr False"
    by code_simp
  have gi: "get_all_info \<lparr>device_id = JStr ''t1'', name = JStr ''Hall'', device_info = JDict []\<rparr> []
      = (JNull, [], [GetAttributes (JStr ''t1'')])"
    by (simp add: get_all_info_def get_device_attributes_def external_def)
  have l: "login \<lparr>session_id = JNull, devices = []\<rparr>
      [Returns (JDict [(''session'', JStr ''abc'')]),
       Returns (JList [JDict [(''id'', JStr ''t1''), (''name'', JStr ''Hall'')]])]
     = (Inr True, \<lparr>session_id = JStr ''abc'', devices = []\<rparr>,
        [Returns (JList [JDict [(''id'', JStr ''t1''), (''name'', JStr ''Hall'')]])], [PostLogin])"
    by (simp add: login_def external_def dict_get_simps)
  have g: "get_devices \<lparr>session_id = JStr ''abc'', devices = []\<rparr>
      [Returns (JList [JDict [(''id'', JStr ''t1''), (''name'', JStr ''Hall'')]])]
     = (Inr True,
        \<lparr>session_id = JStr ''abc'',
         devices = [JDict [(''id'', JStr ''t1''), (''name'', JStr ''Hall'')]]\<rparr>, [], [GetDevices])"
    by (simp add: get_devices_def external_def)
  have l0: "fst (login \<lparr>session_id = JNull, devices = []\<rparr> []) = Inr False"
    by (simp add: login_def external_def)
  note T = startup_failures
      [where pf = "\<lparr>os_nt = False, render = (\<lambda>v. []),
        sleep_refused = (\<lambda>r. if 4294967 < r then Some OSError else None)\<rparr>"
         and cfg = "\<lparr>mode = Trigger, triggers = JDict [], deviceId = JStr ''t1'',
                    interval = JInt 10\<rparr>"]
  note T3 = T [THEN conjunct2, THEN conjunct2, THEN conjunct1, rule_format, OF conjI, OF l g]
  from T3 have s: "fst (startup \<lparr>os_nt = False, render = (\<lambda>v. []),
        sleep_refused = (\<lambda>r. if 4294967 < r then Some OSError else None)\<rparr>
      \<lparr>mode = Trigger, triggers = JDict [], deviceId = JStr ''t1'', interval = JInt 10\<rparr>
      [Returns (JDict [(''session'', JStr ''abc'')]),
       Returns (JList [JDict [(''id'', JStr ''t1''), (''name'', JStr ''Hall'')]])])
     = Inr \<lparr>client = \<lparr>session_id = JStr ''abc'',
                devices = [JDict [(''id'', JStr ''t1''), (''name'', JStr ''Hall'')]]\<rparr>,
            thermostat = \<lparr>device_id = JStr ''t1'', name = JStr ''Hall'',
                device_info = JDict [(''id'', JStr ''t1''), (''name'', JStr ''Hall'')]\<rparr>,
            last_percent = JNull\<rparr>"
    by (auto simp: dict_get_simps)
  have f: "fst (startup \<lparr>os_nt = False, render = (\<lambda>v. []),
        sleep_refused = (\<lambda>r. if 4294967 < r then Some OSError else None)\<rparr>
      \<lparr>mode = Trigger, triggers = JDict [], deviceId = JStr ''t1'', interval = JInt 10\<rparr> [])
     = Inl LoginFailed"
    by (rule T [where s = "[]", THEN conjunct1, THEN iffD2]) (rule l0)
  have e: "fst (run_loop \<lparr>os_nt = False, render = (\<lambda>v. []),
        sleep_refused = (\<lambda>r. if 4294967 < r then Some OSError else None)\<rparr>
      \<lparr>mode = Trigger, triggers = JDict [], deviceId = JStr ''t1'', interval = JInt 10\<rparr>
      1
      \<lparr>client = \<lparr>session_id = JStr ''abc'', devices = []\<rparr>,
       thermostat = \<lparr>device_id = JStr ''t1'', name = JStr ''Hall'', device_info = JDict []\<rparr>,
       last_percent = JInt 0\<rparr> []) = None"
    by (rule T [where s = "[]" and info = JNull and ?s3.0 = "[]"
          and ?ev3.0 = "[GetAttributes (JStr ''t1'')]",
          THEN conjunct2, THEN conjunct2, THEN conjunct2, rule_format])
       (simp add: r gi duration_error_def)
  from l g s f e show ?thesis by (intro conjI)
qed

subsection \<open>login\<close>

lemma has_key_subscript: "has_key r k \<Longrightarrow> py_subscript r k = Inr (case r of JDict kvs \<Rightarrow> dict_get kvs k JNull | _ \<Rightarrow> JNull)"
  by (cases r) simp_all

lemma login_retry_calls:
  "length (filter (\<lambda>x. x = PostLogin) (snd (snd (snd (login_retry ev1 c s)))))
     = Suc (length (filter (\<lambda>x. x = PostLogin) ev1))"
  by (simp add: login_retry_def external_def split: list.splits outcome.splits sum.splits)

text \<open>
  Claim C10. When the first response of \<open>login\<close> is an error object with the code
  \<^verbatim>\<open>ACCSESSEXC\<close> (a dict with no \<^verbatim>\<open>session\<close>), the client posts the forced logout, pauses two
  seconds when the logout did not fail, and posts the login exactly once more; \<open>login\<close>
  returns true exactly when the first response or that one retry response has a
  \<^verbatim>\<open>session\<close> field. Whatever the responses are, \<open>login\<close> posts the login request at most
  twice.
\<close>

theorem login_accsessexc_retries_once:
  "(\<not> has_key (JDict kvs) ''session'' \<and> map_of kvs ''error'' = Some (JDict err)
      \<and> map_of err ''code'' = Some (JStr ''ACCSESSEXC'') \<longrightarrow>
      events_of (login c (Returns (JDict kvs) # rest))
        = [PostLogin, PostLogout]
          @ (case rest of Returns r # later \<Rightarrow> [Wait (JInt 2)] | _ \<Rightarrow> [])
          @ [PostLogin]
      \<and> fst (login c (Returns (JDict kvs) # rest))
        = Inr (has_key (JDict kvs) ''session''
               \<or> (case drop 1 rest of Returns r2 # later \<Rightarrow> has_key r2 ''session'' | _ \<Rightarrow> False)))
   \<and> length (filter (\<lambda>x. x = PostLogin) (events_of (login c s))) \<le> 2"
proof (intro conjI impI)
  show "length (filter (\<lambda>x. x = PostLogin) (events_of (login c s))) \<le> 2"
    by (auto simp: events_of_def login_def login_retry_calls external_def
        split: list.splits outcome.splits sum.splits)
next
  assume a: "\<not> has_key (JDict kvs) ''session'' \<and> map_of kvs ''error'' = Some (JDict err)
      \<and> map_of err ''code'' = Some (JStr ''ACCSESSEXC'')"
  then have l: "login c (Returns (JDict kvs) # rest) = login_retry [PostLogin] c rest"
    by (simp add: login_def external_def dict_get_def)
  show "events_of (login c (Returns (JDict kvs) # rest))
        = [PostLogin, PostLogout]
          @ (case rest of Returns r # later \<Rightarrow> [Wait (JInt 2)] | _ \<Rightarrow> [])
          @ [PostLogin]"
    unfolding l
    by (auto simp: events_of_def login_retry_def external_def
        split: list.splits outcome.splits sum.splits)
  show "fst (login c (Returns (JDict kvs) # rest))
        = Inr (has_key (JDict kvs) ''session''
               \<or> (case drop 1 rest of Returns r2 # later \<Rightarrow> has_key r2 ''session'' | _ \<Rightarrow> False))"
    unfolding l using a
    by (cases rest)
       (auto simp: login_retry_def external_def has_key_subscript
          split: list.splits outcome.splits sum.splits)
qed

theorem login_accsessexc_retries_once_witness:
  "\<not> has_key (JDict [(''error'', JDict [(''code'', JStr ''ACCSESSEXC'')])]) ''session''
   \<and> login \<lparr>session_id = JNull, devices = []\<rparr>
        [Returns (JDict [(''error'', JDict [(''code'', JStr ''ACCSESSEXC'')])]),
         Returns JNull,
         Returns (JDict [(''session'', JStr ''abc'')])]
      = (Inr True, \<lparr>session_id = JStr ''abc'', devices = []\<rparr>, [],
         [PostLogin, PostLogout, Wait (JInt 2), PostLogin])"
  using login_accsessexc_retries_once
      [where kvs = "[(''error'', JDict [(''code'', JStr ''ACCSESSEXC'')])]"
         and err = "[(''code'', JStr ''ACCSESSEXC'')]"
         and c = "\<lparr>session_id = JNull, devices = []\<rparr>"
         and rest = "[Returns JNull, Returns (JDict [(''session'', JStr ''abc'')])]"
         and s = "[]"]
  by (simp add: login_def login_retry_def external_def dict_get_simps)

end
